theory Spec2Isabelle
  imports Complex_Main "HOL-Library.Sublist"
begin

section \<open>Tokens (token.go)\<close>

datatype TokenType =
    TokenEOF | TokenError
  | TokenSelect | TokenFrom | TokenWhere | TokenOrderBy | TokenLimit | TokenParameters
  | TokenAnd | TokenOr | TokenNot | TokenAsc | TokenDesc | TokenIn | TokenLike
  | TokenContains | TokenAny | TokenAll | TokenNone | TokenIs | TokenNull
  | TokenDuring | TokenBetween | TokenRegexpMatch
  | TokenIdent | TokenString | TokenNumber | TokenDateRange
  | TokenEq | TokenNeq | TokenGt | TokenGte | TokenLt | TokenLte
  | TokenComma | TokenLParen | TokenRParen | TokenDot

text \<open>The struct \<open>Token\<close>. A field left out of a Go composite literal has its zero value
  (the empty string, 0).\<close>

record Token =
  ttype :: TokenType
  tvalue :: string
  tline :: nat
  tcolumn :: nat

fun TokenType_String :: "TokenType \<Rightarrow> string" where
  "TokenType_String TokenEOF = ''EOF''"
| "TokenType_String TokenError = ''ERROR''"
| "TokenType_String TokenSelect = ''SELECT''"
| "TokenType_String TokenFrom = ''FROM''"
| "TokenType_String TokenWhere = ''WHERE''"
| "TokenType_String TokenOrderBy = ''ORDER BY''"
| "TokenType_String TokenLimit = ''LIMIT''"
| "TokenType_String TokenParameters = ''PARAMETERS''"
| "TokenType_String TokenAnd = ''AND''"
| "TokenType_String TokenOr = ''OR''"
| "TokenType_String TokenNot = ''NOT''"
| "TokenType_String TokenAsc = ''ASC''"
| "TokenType_String TokenDesc = ''DESC''"
| "TokenType_String TokenIn = ''IN''"
| "TokenType_String TokenLike = ''LIKE''"
| "TokenType_String TokenContains = ''CONTAINS''"
| "TokenType_String TokenAny = ''ANY''"
| "TokenType_String TokenAll = ''ALL''"
| "TokenType_String TokenNone = ''NONE''"
| "TokenType_String TokenIs = ''IS''"
| "TokenType_String TokenNull = ''NULL''"
| "TokenType_String TokenDuring = ''DURING''"
| "TokenType_String TokenBetween = ''BETWEEN''"
| "TokenType_String TokenRegexpMatch = ''REGEXP_MATCH''"
| "TokenType_String TokenIdent = ''IDENT''"
| "TokenType_String TokenString = ''STRING''"
| "TokenType_String TokenNumber = ''NUMBER''"
| "TokenType_String TokenDateRange = ''DATE_RANGE''"
| "TokenType_String TokenEq = ''=''"
| "TokenType_String TokenNeq = ''!=''"
| "TokenType_String TokenGt = ''>''"
| "TokenType_String TokenGte = ''>=''"
| "TokenType_String TokenLt = ''<''"
| "TokenType_String TokenLte = ''<=''"
| "TokenType_String TokenComma = '',''"
| "TokenType_String TokenLParen = ''(''"
| "TokenType_String TokenRParen = '')''"
| "TokenType_String TokenDot = ''.''"

text \<open>The table \<open>Keywords\<close>, a Go map with string keys, as an association list read
  with \<open>map_of\<close> (the keys are distinct).\<close>

definition Keywords_table :: "(string \<times> TokenType) list" where
  "Keywords_table =
    [(''SELECT'', TokenSelect), (''FROM'', TokenFrom), (''WHERE'', TokenWhere),
     (''ORDER'', TokenIdent), (''BY'', TokenIdent), (''LIMIT'', TokenLimit),
     (''PARAMETERS'', TokenParameters), (''AND'', TokenAnd), (''OR'', TokenOr),
     (''NOT'', TokenNot), (''ASC'', TokenAsc), (''DESC'', TokenDesc), (''IN'', TokenIn),
     (''LIKE'', TokenLike), (''CONTAINS'', TokenContains), (''ANY'', TokenAny),
     (''ALL'', TokenAll), (''NONE'', TokenNone), (''IS'', TokenIs), (''NULL'', TokenNull),
     (''DURING'', TokenDuring), (''BETWEEN'', TokenBetween),
     (''REGEXP_MATCH'', TokenRegexpMatch)]"

definition Keywords :: "string \<Rightarrow> TokenType option" where
  "Keywords = map_of Keywords_table"

section \<open>Date ranges (the AST file)\<close>

datatype DateRange =
    DateRangeToday | DateRangeYesterday | DateRangeLast7Days | DateRangeLast14Days
  | DateRangeLast30Days | DateRangeThisMonth | DateRangeLastMonth
  | DateRangeThisWeekSunToday | DateRangeThisWeekMonToday | DateRangeLastWeekSunSat
  | DateRangeLastWeekMonSun | DateRangeLastBusinessWeek | DateRangeCustom

definition DateRangeKeywords_table :: "(string \<times> DateRange) list" where
  "DateRangeKeywords_table =
    [(''TODAY'', DateRangeToday), (''YESTERDAY'', DateRangeYesterday),
     (''LAST_7_DAYS'', DateRangeLast7Days), (''LAST_14_DAYS'', DateRangeLast14Days),
     (''LAST_30_DAYS'', DateRangeLast30Days), (''THIS_MONTH'', DateRangeThisMonth),
     (''LAST_MONTH'', DateRangeLastMonth),
     (''THIS_WEEK_SUN_TODAY'', DateRangeThisWeekSunToday),
     (''THIS_WEEK_MON_TODAY'', DateRangeThisWeekMonToday),
     (''LAST_WEEK_SUN_SAT'', DateRangeLastWeekSunSat),
     (''LAST_WEEK_MON_SUN'', DateRangeLastWeekMonSun),
     (''LAST_BUSINESS_WEEK'', DateRangeLastBusinessWeek)]"

definition DateRangeKeywords :: "string \<Rightarrow> DateRange option" where
  "DateRangeKeywords = map_of DateRangeKeywords_table"

section \<open>Errors (errors.go)\<close>

record ParseError =
  Message :: string
  Line :: nat
  Column :: nat

record ValidationError =
  vMessage :: string
  vField :: string

section \<open>Lexer (lexer.go)\<close>

text \<open>A Go string is a sequence of bytes and the lexer reads it byte by byte, so the input
  is a \<open>string\<close> of 8-bit \<open>char\<close>s. Positions, lines and columns only grow from 0 or 1 by
  steps of one per input byte, so they are natural numbers.\<close>

record Lexer =
  input :: string
  pos :: nat
  line :: nat
  column :: nat
  tokens :: "Token list"

definition NewLexer :: "string \<Rightarrow> Lexer" where
  "NewLexer inp = \<lparr>input = inp, pos = 0, line = 1, column = 1, tokens = []\<rparr>"

text \<open>\<open>isLetter\<close> is \<open>unicode.IsLetter(rune(ch))\<close> on a byte: the byte is read as a Latin-1
  code point, whose letters are A-Z, a-z, U+00AA, U+00B5, U+00BA, U+00C0-U+00D6,
  U+00D8-U+00F6 and U+00F8-U+00FF.\<close>

definition isLetter :: "char \<Rightarrow> bool" where
  "isLetter ch = (let n = (of_char ch :: nat) in
     (65 \<le> n \<and> n \<le> 90) \<or> (97 \<le> n \<and> n \<le> 122) \<or> n = 170 \<or> n = 181 \<or> n = 186 \<or>
     (192 \<le> n \<and> n \<le> 214) \<or> (216 \<le> n \<and> n \<le> 246) \<or> (248 \<le> n \<and> n \<le> 255))"

definition isDigit :: "char \<Rightarrow> bool" where
  "isDigit ch = (let n = (of_char ch :: nat) in 48 \<le> n \<and> n \<le> 57)"

text \<open>\<open>strings.ToUpper\<close>. The program only compares its result with the ASCII keys of the
  two keyword tables and with \<open>BY\<close>, and stores it only when it is such a key. The model
  maps the ASCII letters a-z to A-Z and the two characters outside ASCII whose upper case
  is an ASCII letter (U+0131, bytes C4 B1, to I; U+017F, bytes C5 BF, to S), and keeps every
  other byte: its result is an ASCII string exactly when Go's is, and then it is the same
  string.\<close>

definition upperByte :: "char \<Rightarrow> char" where
  "upperByte ch = (let n = (of_char ch :: nat) in
     if 97 \<le> n \<and> n \<le> 122 then char_of (n - 32) else ch)"

fun toUpper :: "string \<Rightarrow> string" where
  "toUpper [] = []"
| "toUpper [c] = [upperByte c]"
| "toUpper (c # d # cs) =
     (if c = CHR 0xC4 \<and> d = CHR 0xB1 then CHR ''I'' # toUpper cs
      else if c = CHR 0xC5 \<and> d = CHR 0xBF then CHR ''S'' # toUpper cs
      else upperByte c # toUpper (d # cs))"

text \<open>\<open>string(ch)\<close> on a byte is the UTF-8 encoding of the code point of that value: one
  byte below 0x80, two bytes from there on.\<close>

definition string_of_byte :: "char \<Rightarrow> string" where
  "string_of_byte ch = (let n = (of_char ch :: nat) in
     if n < 128 then [ch] else [char_of (192 + n div 64), char_of (128 + n mod 64)])"

definition l_advance :: "Lexer \<Rightarrow> Lexer" where
  "l_advance l =
     (if pos l < length (input l) then
        (if input l ! pos l = CHR 0x0A
         then l\<lparr>line := line l + 1, column := 1, pos := pos l + 1\<rparr>
         else l\<lparr>column := column l + 1, pos := pos l + 1\<rparr>)
      else l)"

definition l_peek :: "Lexer \<Rightarrow> nat \<Rightarrow> char" where
  "l_peek l offset = (let p = pos l + offset in
     if p \<ge> length (input l) then CHR 0x00 else input l ! p)"

function skipWhitespace :: "Lexer \<Rightarrow> Lexer" where
  "skipWhitespace l =
     (if pos l < length (input l) then
        (let ch = input l ! pos l in
         if ch = CHR '' '' \<or> ch = CHR 0x09 \<or> ch = CHR 0x0D
         then skipWhitespace (l\<lparr>column := column l + 1, pos := pos l + 1\<rparr>)
         else if ch = CHR 0x0A
         then skipWhitespace (l\<lparr>line := line l + 1, column := 1, pos := pos l + 1\<rparr>)
         else l)
      else l)"
  by pat_completeness auto
termination
  by (relation "measure (\<lambda>l. length (input l) - pos l)") auto

declare skipWhitespace.simps [simp del]

text \<open>The \<open>switch escaped\<close> of \<open>readString\<close>: the byte written for an escaped byte.\<close>

definition unescape :: "char \<Rightarrow> char" where
  "unescape escaped =
     (if escaped = CHR ''n'' then CHR 0x0A
      else if escaped = CHR ''t'' then CHR 0x09
      else if escaped = CHR 0x5C then CHR 0x5C
      else if escaped = CHR 0x27 then CHR 0x27
      else if escaped = CHR 0x22 then CHR 0x22
      else escaped)"

text \<open>The loop of \<open>readString\<close>; \<open>sb\<close> is the string builder, \<open>input l ! pos l\<close> the
  byte \<open>ch\<close>, and the escaped byte is read after one \<open>advance\<close>.\<close>

function readString_loop :: "char \<Rightarrow> nat \<Rightarrow> nat \<Rightarrow> string \<Rightarrow> Lexer \<Rightarrow> Token \<times> Lexer" where
  "readString_loop quote startLine startCol sb l =
     (if pos l < length (input l) then
        (if input l ! pos l = quote then
           (\<lparr>ttype = TokenString, tvalue = sb, tline = startLine, tcolumn = startCol\<rparr>,
            l_advance l)
         else if input l ! pos l = CHR 0x5C \<and> pos l + 1 < length (input l) then
           readString_loop quote startLine startCol
             (sb @ [unescape (input (l_advance l) ! pos (l_advance l))])
             (l_advance (l_advance l))
         else readString_loop quote startLine startCol (sb @ [input l ! pos l]) (l_advance l))
      else
        (\<lparr>ttype = TokenError, tvalue = ''unterminated string'', tline = startLine,
          tcolumn = startCol\<rparr>, l))"
  by pat_completeness auto
termination
  by (relation "measure (\<lambda>(q, sl, sc, sb, l). length (input l) - pos l)")
     (auto simp: l_advance_def)

declare readString_loop.simps [simp del]

definition readString :: "Lexer \<Rightarrow> char \<Rightarrow> Token \<times> Lexer" where
  "readString l quote =
     (let startLine = line l; startCol = column l; l1 = l_advance l
      in readString_loop quote startLine startCol [] l1)"

text \<open>The two digit loops of \<open>readNumber\<close> and the loop of \<open>readIdentOrKeyword\<close>.\<close>

function skipDigits :: "Lexer \<Rightarrow> Lexer" where
  "skipDigits l =
     (if pos l < length (input l) \<and> isDigit (input l ! pos l)
      then skipDigits (l_advance l) else l)"
  by pat_completeness auto
termination
  by (relation "measure (\<lambda>l. length (input l) - pos l)") (auto simp: l_advance_def)

declare skipDigits.simps [simp del]

function skipIdentChars :: "Lexer \<Rightarrow> Lexer" where
  "skipIdentChars l =
     (if pos l < length (input l) \<and>
         (isLetter (input l ! pos l) \<or> isDigit (input l ! pos l) \<or> input l ! pos l = CHR ''_'')
      then skipIdentChars (l_advance l) else l)"
  by pat_completeness auto
termination
  by (relation "measure (\<lambda>l. length (input l) - pos l)") (auto simp: l_advance_def)

declare skipIdentChars.simps [simp del]

text \<open>The slice \<open>s[i:j]\<close> for \<open>i \<le> j \<le> len(s)\<close>, which is how the lexer uses it.\<close>

definition slice :: "string \<Rightarrow> nat \<Rightarrow> nat \<Rightarrow> string" where
  "slice s i j = take (j - i) (drop i s)"

definition readNumber :: "Lexer \<Rightarrow> Token \<times> Lexer" where
  "readNumber l =
     (let startLine = line l; startCol = column l; startPos = pos l;
          l1 = (if input l ! pos l = CHR ''-'' then l_advance l else l);
          l2 = skipDigits l1;
          l3 = (if pos l2 < length (input l2) \<and> input l2 ! pos l2 = CHR ''.''
                then skipDigits (l_advance l2) else l2);
          value = slice (input l3) startPos (pos l3)
      in (\<lparr>ttype = TokenNumber, tvalue = value, tline = startLine, tcolumn = startCol\<rparr>, l3))"

definition readIdentOrKeyword :: "Lexer \<Rightarrow> Token \<times> Lexer" where
  "readIdentOrKeyword l =
     (let startLine = line l; startCol = column l; startPos = pos l;
          l1 = skipIdentChars l;
          value = slice (input l1) startPos (pos l1);
          upper = toUpper value
      in if upper = ''ORDER'' then
           (let l2 = skipWhitespace l1 in
            if pos l2 + 2 \<le> length (input l2) \<and>
               toUpper (slice (input l2) (pos l2) (pos l2 + 2)) = ''BY''
            then (\<lparr>ttype = TokenOrderBy, tvalue = ''ORDER BY'', tline = startLine,
                    tcolumn = startCol\<rparr>, l_advance (l_advance l2))
            else (\<lparr>ttype = TokenIdent, tvalue = value, tline = startLine,
                    tcolumn = startCol\<rparr>, l2))
         else (case DateRangeKeywords upper of
            Some dr \<Rightarrow> (\<lparr>ttype = TokenDateRange, tvalue = upper, tline = startLine,
                          tcolumn = startCol\<rparr>, l1)
          | None \<Rightarrow>
           (case Keywords upper of
              Some tokType \<Rightarrow> (\<lparr>ttype = tokType, tvalue = upper, tline = startLine,
                                 tcolumn = startCol\<rparr>, l1)
            | None \<Rightarrow> (\<lparr>ttype = TokenIdent, tvalue = value, tline = startLine,
                         tcolumn = startCol\<rparr>, l1))))"

definition nextToken :: "Lexer \<Rightarrow> Token \<times> Lexer" where
  "nextToken l0 =
     (let l = skipWhitespace l0 in
      if pos l \<ge> length (input l) then
        (\<lparr>ttype = TokenEOF, tvalue = [], tline = line l, tcolumn = column l\<rparr>, l)
      else
        (let ch = input l ! pos l; startLine = line l; startCol = column l in
         if ch = CHR '','' then
           (\<lparr>ttype = TokenComma, tvalue = '','', tline = startLine, tcolumn = startCol\<rparr>,
            l_advance l)
         else if ch = CHR ''('' then
           (\<lparr>ttype = TokenLParen, tvalue = ''('', tline = startLine, tcolumn = startCol\<rparr>,
            l_advance l)
         else if ch = CHR '')'' then
           (\<lparr>ttype = TokenRParen, tvalue = '')'', tline = startLine, tcolumn = startCol\<rparr>,
            l_advance l)
         else if ch = CHR ''.'' then
           (\<lparr>ttype = TokenDot, tvalue = ''.'', tline = startLine, tcolumn = startCol\<rparr>,
            l_advance l)
         else if ch = CHR ''='' then
           (\<lparr>ttype = TokenEq, tvalue = ''='', tline = startLine, tcolumn = startCol\<rparr>,
            l_advance l)
         else if ch = CHR ''!'' then
           (if l_peek l 1 = CHR ''='' then
              (\<lparr>ttype = TokenNeq, tvalue = ''!='', tline = startLine, tcolumn = startCol\<rparr>,
               l_advance (l_advance l))
            else
              (\<lparr>ttype = TokenError, tvalue = ''unexpected character '' @ [CHR 0x27] @ ''!'' @ [CHR 0x27],
                tline = startLine, tcolumn = startCol\<rparr>, l))
         else if ch = CHR ''>'' then
           (if l_peek l 1 = CHR ''='' then
              (\<lparr>ttype = TokenGte, tvalue = ''>='', tline = startLine, tcolumn = startCol\<rparr>,
               l_advance (l_advance l))
            else
              (\<lparr>ttype = TokenGt, tvalue = ''>'', tline = startLine, tcolumn = startCol\<rparr>,
               l_advance l))
         else if ch = CHR ''<'' then
           (if l_peek l 1 = CHR ''='' then
              (\<lparr>ttype = TokenLte, tvalue = ''<='', tline = startLine, tcolumn = startCol\<rparr>,
               l_advance (l_advance l))
            else
              (\<lparr>ttype = TokenLt, tvalue = ''<'', tline = startLine, tcolumn = startCol\<rparr>,
               l_advance l))
         else if ch = CHR 0x27 \<or> ch = CHR 0x22 then readString l ch
         else if ch = CHR ''-'' \<or> isDigit ch then readNumber l
         else if isLetter ch \<or> ch = CHR ''_'' then readIdentOrKeyword l
         else
           (\<lparr>ttype = TokenError,
             tvalue = ''unexpected character '' @ [CHR 0x27] @ string_of_byte ch @ [CHR 0x27],
             tline = startLine, tcolumn = startCol\<rparr>, l_advance l)))"

subsection \<open>The lexer only moves forward\<close>

lemma l_advance_input [simp]: "input (l_advance l) = input l"
  by (simp add: l_advance_def)

lemma l_advance_tokens [simp]: "tokens (l_advance l) = tokens l"
  by (simp add: l_advance_def)

lemma l_advance_pos: "pos (l_advance l) = (if pos l < length (input l) then pos l + 1 else pos l)"
  by (simp add: l_advance_def)

lemma skipWhitespace_input [simp]: "input (skipWhitespace l) = input l"
  by (induction l rule: skipWhitespace.induct) (subst skipWhitespace.simps, simp add: Let_def)

lemma skipWhitespace_tokens [simp]: "tokens (skipWhitespace l) = tokens l"
  by (induction l rule: skipWhitespace.induct) (subst skipWhitespace.simps, simp add: Let_def)

lemma skipWhitespace_pos: "pos l \<le> pos (skipWhitespace l)"
  by (induction l rule: skipWhitespace.induct) (subst skipWhitespace.simps, auto simp add: Let_def)

lemma skipDigits_input [simp]: "input (skipDigits l) = input l"
  by (induction l rule: skipDigits.induct) (subst skipDigits.simps, simp)

lemma skipDigits_tokens [simp]: "tokens (skipDigits l) = tokens l"
  by (induction l rule: skipDigits.induct) (subst skipDigits.simps, simp)

lemma skipDigits_pos: "pos l \<le> pos (skipDigits l)"
  by (induction l rule: skipDigits.induct) (subst skipDigits.simps, auto simp add: l_advance_pos split: if_splits)

lemma skipIdentChars_input [simp]: "input (skipIdentChars l) = input l"
  by (induction l rule: skipIdentChars.induct) (subst skipIdentChars.simps, simp)

lemma skipIdentChars_tokens [simp]: "tokens (skipIdentChars l) = tokens l"
  by (induction l rule: skipIdentChars.induct) (subst skipIdentChars.simps, simp)

lemma skipIdentChars_pos: "pos l \<le> pos (skipIdentChars l)"
  by (induction l rule: skipIdentChars.induct) (subst skipIdentChars.simps, auto simp add: l_advance_pos split: if_splits)

lemma skipIdentChars_le: "pos l \<le> length (input l) \<Longrightarrow> pos (skipIdentChars l) \<le> length (input l)"
  by (induction l rule: skipIdentChars.induct) (subst skipIdentChars.simps, auto simp add: l_advance_pos split: if_splits)

lemma skipIdentChars_progress:
  "pos l < length (input l) \<Longrightarrow> isLetter (input l ! pos l) \<or> input l ! pos l = CHR ''_'' \<Longrightarrow>
   pos l < pos (skipIdentChars l)"
  using skipIdentChars_pos [of "l_advance l"]
  by (subst skipIdentChars.simps) (auto simp add: l_advance_pos)

lemma readString_loop_input [simp]: "input (snd (readString_loop q sl sc sb l)) = input l"
  by (induction q sl sc sb l rule: readString_loop.induct)
     (subst readString_loop.simps, simp)

lemma readString_loop_tokens [simp]: "tokens (snd (readString_loop q sl sc sb l)) = tokens l"
  by (induction q sl sc sb l rule: readString_loop.induct)
     (subst readString_loop.simps, simp)

lemma readString_loop_pos: "pos l \<le> pos (snd (readString_loop q sl sc sb l))"
  apply (induction q sl sc sb l rule: readString_loop.induct)
  apply (subst readString_loop.simps)
  apply (auto simp add: l_advance_pos split: if_splits)
  done

lemma readString_input [simp]: "input (snd (readString l q)) = input l"
  by (simp add: readString_def Let_def)

lemma readString_tokens [simp]: "tokens (snd (readString l q)) = tokens l"
  by (simp add: readString_def Let_def)

lemma readString_progress: "pos l < length (input l) \<Longrightarrow> pos l < pos (snd (readString l q))"
  using readString_loop_pos [of "l_advance l" q "line l" "column l" "[]"]
  by (simp add: readString_def Let_def l_advance_pos)

lemma readNumber_input [simp]: "input (snd (readNumber l)) = input l"
  by (simp add: readNumber_def Let_def)

lemma readNumber_tokens [simp]: "tokens (snd (readNumber l)) = tokens l"
  by (simp add: readNumber_def Let_def)

lemma skipDigits_progress:
  "pos l < length (input l) \<Longrightarrow> isDigit (input l ! pos l) \<Longrightarrow> pos l < pos (skipDigits l)"
  using skipDigits_pos [of "l_advance l"]
  by (subst skipDigits.simps) (auto simp add: l_advance_pos)

lemma readNumber_progress:
  assumes "pos l < length (input l)" "input l ! pos l = CHR ''-'' \<or> isDigit (input l ! pos l)"
  shows "pos l < pos (snd (readNumber l))"
proof -
  let ?l1 = "if input l ! pos l = CHR ''-'' then l_advance l else l"
  let ?l2 = "skipDigits ?l1"
  have a: "pos l < pos ?l2"
  proof (cases "input l ! pos l = CHR ''-''")
    case True
    then show ?thesis using skipDigits_pos [of "l_advance l"] assms by (simp add: l_advance_pos)
  next
    case False
    then show ?thesis using skipDigits_progress [of l] assms by simp
  qed
  have b: "pos ?l2 \<le> pos (skipDigits (l_advance ?l2))"
    using skipDigits_pos [of "l_advance ?l2"] by (simp add: l_advance_pos split: if_splits)
  show ?thesis using a b by (simp add: readNumber_def Let_def)
qed

lemma readIdentOrKeyword_input [simp]: "input (snd (readIdentOrKeyword l)) = input l"
  by (simp add: readIdentOrKeyword_def Let_def split: option.splits)

lemma readIdentOrKeyword_tokens [simp]: "tokens (snd (readIdentOrKeyword l)) = tokens l"
  by (simp add: readIdentOrKeyword_def Let_def split: option.splits)

lemma readIdentOrKeyword_progress:
  assumes "pos l < length (input l)" "isLetter (input l ! pos l) \<or> input l ! pos l = CHR ''_''"
  shows "pos l < pos (snd (readIdentOrKeyword l))"
proof -
  have a: "pos l < pos (skipIdentChars l)" using skipIdentChars_progress assms by simp
  have b: "pos (skipIdentChars l) \<le> pos (skipWhitespace (skipIdentChars l))"
    by (rule skipWhitespace_pos)
  have c: "pos (skipWhitespace (skipIdentChars l))
     \<le> pos (l_advance (l_advance (skipWhitespace (skipIdentChars l))))"
    by (simp add: l_advance_pos)
  show ?thesis using a b c
    by (simp add: readIdentOrKeyword_def Let_def split: option.splits)
qed

lemma nextToken_input [simp]: "input (snd (nextToken l)) = input l"
  by (simp add: nextToken_def Let_def)

lemma nextToken_tokens [simp]: "tokens (snd (nextToken l)) = tokens l"
  by (simp add: nextToken_def Let_def)

lemma nextToken_progress:
  assumes "ttype (fst (nextToken l)) \<noteq> TokenEOF" "ttype (fst (nextToken l)) \<noteq> TokenError"
  shows "pos l < pos (snd (nextToken l))" "pos l < length (input l)"
proof -
  let ?l = "skipWhitespace l"
  have le: "pos l \<le> pos ?l" by (rule skipWhitespace_pos)
  have lt: "pos ?l < length (input ?l)"
  proof (rule ccontr)
    assume "\<not> pos ?l < length (input ?l)"
    then have "ttype (fst (nextToken l)) = TokenEOF" by (simp add: nextToken_def Let_def)
    then show False using assms(1) by simp
  qed
  then show "pos l < length (input l)" using le by simp
  have "pos ?l < pos (snd (nextToken l))"
    using lt assms(2) readString_progress [of ?l] readNumber_progress [of ?l]
      readIdentOrKeyword_progress [of ?l]
    by (simp add: nextToken_def Let_def l_advance_pos l_peek_def split: if_splits)
  then show "pos l < pos (snd (nextToken l))" using le by simp
qed

text \<open>\<open>Tokenize\<close>: the loop ends at the end-of-input token or at the first error token.
  The pair is Go's \<open>([]Token, error)\<close>, with \<open>None\<close> for \<open>nil\<close>.\<close>

function Tokenize :: "Lexer \<Rightarrow> Token list \<times> ParseError option" where
  "Tokenize l =
     (case nextToken l of (tok, l1) \<Rightarrow>
        if ttype tok = TokenEOF then (tokens l @ [tok], None)
        else if ttype tok = TokenError then
          (tokens l @ [tok],
           Some \<lparr>Message = tvalue tok, Line = tline tok, Column = tcolumn tok\<rparr>)
        else Tokenize (l1\<lparr>tokens := tokens l @ [tok]\<rparr>))"
  by pat_completeness auto
termination
  apply (relation "measure (\<lambda>l. length (input l) - pos l)")
  apply simp
  subgoal for l
    using nextToken_progress [of l] nextToken_input [of l] by (cases "nextToken l") auto
  done

declare Tokenize.simps [simp del]

section \<open>The query AST\<close>

record Field =
  Name :: string

datatype Direction = Asc | Desc

datatype Operator =
    OpEq | OpNeq | OpGt | OpGte | OpLt | OpLte | OpIn | OpNotIn | OpLike | OpNotLike
  | OpContainsAny | OpContainsAll | OpContainsNone | OpIsNull | OpIsNotNull
  | OpDuring | OpBetween | OpRegexpMatch | OpNotRegexpMatch

datatype ValueType = ValueString | ValueNumber | ValueList | ValueDateRange | ValueNull

text \<open>The struct \<open>Value\<close>: a type tag and one field per shape; the fields that a
  composite literal leaves out hold their zero values. The \<open>float64\<close> field holds the exact
  value of the decimal literal it was parsed from: rounding to binary64 is not modelled, so
  two literals that Go rounds to the same number stay different here.\<close>

record Value =
  vType :: ValueType
  vStr :: string
  vNumber :: rat
  vList :: "string list"
  vDateRange :: DateRange

definition Value_zero :: Value where
  "Value_zero = \<lparr>vType = ValueString, vStr = [], vNumber = 0, vList = [],
     vDateRange = DateRangeToday\<rparr>"

record Condition =
  cField :: string
  cOperator :: Operator
  cValue :: Value

record Ordering =
  oField :: string
  oDirection :: Direction

text \<open>The struct \<open>Query\<close>. \<open>Parameters\<close> is a Go map; it is an association list with
  distinct keys, written with \<open>map_store\<close>, because the printer enumerates it. Go enumerates
  a map in an unspecified order; the list keeps the order of first insertion.\<close>

record Query =
  Select :: "Field list"
  From :: string
  Where :: "Condition list"
  OrderBy :: "Ordering list"
  Limit :: int
  Parameters :: "(string \<times> string) list"

fun map_store :: "(string \<times> string) list \<Rightarrow> string \<Rightarrow> string \<Rightarrow> (string \<times> string) list" where
  "map_store [] k v = [(k, v)]"
| "map_store ((k', v') # m) k v =
     (if k' = k then (k, v) # m else (k', v') # map_store m k v)"

section \<open>Library functions of Go used by the parser\<close>

definition digitVal :: "char \<Rightarrow> nat" where
  "digitVal ch = of_char ch - 48"

definition digitsVal :: "string \<Rightarrow> nat" where
  "digitsVal s = foldl (\<lambda>n ch. 10 * n + digitVal ch) 0 s"

text \<open>\<open>strconv.Atoi\<close> with a 64-bit \<open>int\<close>: an optional sign, then one or more decimal
  digits and nothing else; a value outside the range of \<open>int\<close> is an error.\<close>

definition Atoi :: "string \<Rightarrow> int option" where
  "Atoi s =
     (let neg = (s \<noteq> [] \<and> hd s = CHR ''-'');
          ds = (if s \<noteq> [] \<and> (hd s = CHR ''-'' \<or> hd s = CHR ''+'') then tl s else s);
          n = (if neg then - int (digitsVal ds) else int (digitsVal ds))
      in if ds = [] \<or> \<not> list_all isDigit ds then None
         else if n < - (2 ^ 63) \<or> 2 ^ 63 - 1 < n then None
         else Some n)"

text \<open>\<open>strconv.ParseFloat(s, 64)\<close> on the decimal forms without exponent: an optional sign,
  digits with at most one dot, at least one digit. A value that rounds to an infinity, that
  is of magnitude at least \<open>2^1024 - 2^970\<close>, is a range error. The other forms Go accepts
  (exponents, hexadecimal, underscores, infinities, NaN) contain a byte that no number
  token of the lexer contains; they are rejected here.\<close>

definition ParseFloat :: "string \<Rightarrow> rat option" where
  "ParseFloat s =
     (let neg = (s \<noteq> [] \<and> hd s = CHR ''-'');
          body = (if s \<noteq> [] \<and> (hd s = CHR ''-'' \<or> hd s = CHR ''+'') then tl s else s);
          ip = takeWhile (\<lambda>ch. ch \<noteq> CHR ''.'') body;
          rest = dropWhile (\<lambda>ch. ch \<noteq> CHR ''.'') body;
          fp = (if rest = [] then [] else tl rest);
          mag = (of_nat (digitsVal (ip @ fp)) :: rat) / of_nat (10 ^ length fp)
      in if ip @ fp = [] \<or> \<not> list_all isDigit (ip @ fp) then None
         else if mag \<ge> 2 ^ 1024 - 2 ^ 970 then None
         else Some (if neg then - mag else mag))"

section \<open>Parser\<close>

record Parser =
  ptokens :: "Token list"
  ppos :: nat

type_synonym 'a result = "ParseError + ('a \<times> Parser)"

definition p_current :: "Parser \<Rightarrow> Token" where
  "p_current p =
     (if ppos p \<ge> length (ptokens p)
      then \<lparr>ttype = TokenEOF, tvalue = [], tline = 0, tcolumn = 0\<rparr>
      else ptokens p ! ppos p)"

definition p_advance :: "Parser \<Rightarrow> Parser" where
  "p_advance p = (if ppos p < length (ptokens p) then p\<lparr>ppos := ppos p + 1\<rparr> else p)"

definition p_check :: "Parser \<Rightarrow> TokenType \<Rightarrow> bool" where
  "p_check p t = (ttype (p_current p) = t)"

text \<open>\<open>match\<close> returns whether the token matched, and the parser after it.\<close>

definition p_match :: "Parser \<Rightarrow> TokenType \<Rightarrow> bool \<times> Parser" where
  "p_match p t = (if p_check p t then (True, p_advance p) else (False, p))"

definition p_error :: "Parser \<Rightarrow> string \<Rightarrow> ParseError" where
  "p_error p msg =
     \<lparr>Message = msg, Line = tline (p_current p), Column = tcolumn (p_current p)\<rparr>"

lemma p_advance_tokens [simp]: "ptokens (p_advance p) = ptokens p"
  by (simp add: p_advance_def)

lemma p_advance_pos_le: "ppos p \<le> ppos (p_advance p)"
  by (simp add: p_advance_def)

lemma p_check_advance:
  "p_check p t \<Longrightarrow> t \<noteq> TokenEOF \<Longrightarrow> ppos p < length (ptokens p) \<and> ppos (p_advance p) = ppos p + 1"
  by (auto simp: p_check_def p_current_def p_advance_def split: if_splits)

lemma p_match_tokens [simp]: "ptokens (snd (p_match p t)) = ptokens p"
  by (simp add: p_match_def)

lemma p_match_pos_le: "ppos p \<le> ppos (snd (p_match p t))"
  by (simp add: p_match_def p_advance_pos_le)

lemma p_match_progress:
  "fst (p_match p t) \<Longrightarrow> t \<noteq> TokenEOF \<Longrightarrow>
   ppos p < length (ptokens p) \<and> ppos (snd (p_match p t)) = ppos p + 1"
  using p_check_advance [of p t] by (auto simp: p_match_def split: if_splits)

text \<open>\<open>parseField\<close>: the loop \<open>for p.match(TokenDot)\<close> over the parts read so far.\<close>

function parseField_loop :: "string list \<Rightarrow> Parser \<Rightarrow> ParseError + (string list \<times> Parser)" where
  "parseField_loop parts p =
     (if fst (p_match p TokenDot) then
        (if \<not> p_check (snd (p_match p TokenDot)) TokenIdent then
           Inl (p_error (snd (p_match p TokenDot)) (''expected field name after '' @ [CHR 0x27] @ ''.'' @ [CHR 0x27]))
         else parseField_loop (parts @ [tvalue (p_current (snd (p_match p TokenDot)))])
                (p_advance (snd (p_match p TokenDot))))
      else Inr (parts, snd (p_match p TokenDot)))"
  by pat_completeness auto
termination
  apply (relation "measure (\<lambda>(parts, p). length (ptokens p) - ppos p)")
   apply simp
  subgoal for parts p
    using p_match_progress [of p TokenDot] p_advance_pos_le [of "snd (p_match p TokenDot)"]
    by auto
  done

declare parseField_loop.simps [simp del]

text \<open>\<open>strings.Join(parts, sep)\<close>.\<close>

fun Join :: "string list \<Rightarrow> string \<Rightarrow> string" where
  "Join [] sep = []"
| "Join [x] sep = x"
| "Join (x # y # xs) sep = x @ sep @ Join (y # xs) sep"

definition parseField :: "Parser \<Rightarrow> Field result" where
  "parseField p =
     (if \<not> p_check p TokenIdent then Inl (p_error p ''expected field name'')
      else (case parseField_loop [tvalue (p_current p)] (p_advance p) of
              Inl e \<Rightarrow> Inl e
            | Inr r \<Rightarrow> Inr (\<lparr>Name = Join (fst r) ''.''\<rparr>, snd r)))"

text \<open>On success a parser function keeps the token list, never moves back, stays within
  the list and, outside the LIMIT clause, consumes no \<open>LIMIT\<close> token; \<open>moved p p'\<close> says so,
  \<open>moved1\<close> that moreover at least one token was consumed.\<close>

definition moved :: "Parser \<Rightarrow> Parser \<Rightarrow> bool" where
  "moved p p' =
     (ptokens p' = ptokens p \<and> ppos p \<le> ppos p' \<and>
      (\<forall>i. ppos p \<le> i \<and> i < ppos p' \<longrightarrow>
         i < length (ptokens p) \<and> ttype (ptokens p ! i) \<noteq> TokenLimit))"

definition moved1 :: "Parser \<Rightarrow> Parser \<Rightarrow> bool" where
  "moved1 p p' = (moved p p' \<and> ppos p < ppos p')"

lemma moved_refl [simp]: "moved p p"
  by (auto simp: moved_def)

lemma moved_trans: "moved p q \<Longrightarrow> moved q r \<Longrightarrow> moved p r"
  unfolding moved_def by (metis le_trans not_le_imp_less)

lemma moved1_moved: "moved1 p q \<Longrightarrow> moved p q"
  by (simp add: moved1_def)

lemma moved1_trans1: "moved1 p q \<Longrightarrow> moved q r \<Longrightarrow> moved1 p r"
  using moved_trans [of p q r] by (auto simp: moved1_def moved_def)

lemma moved1_trans2: "moved p q \<Longrightarrow> moved1 q r \<Longrightarrow> moved1 p r"
  using moved_trans [of p q r] by (auto simp: moved1_def moved_def)

lemma moved_advance: "ttype (p_current p) \<noteq> TokenLimit \<Longrightarrow> moved p (p_advance p)"
proof (cases "ppos p < length (ptokens p)")
  case True
  assume "ttype (p_current p) \<noteq> TokenLimit"
  with True have "ttype (ptokens p ! ppos p) \<noteq> TokenLimit" by (simp add: p_current_def)
  then show ?thesis using True by (auto simp: moved_def p_advance_def le_less_Suc_eq)
next
  case False
  then show ?thesis by (simp add: p_advance_def)
qed

lemma moved_match: "t \<noteq> TokenLimit \<Longrightarrow> moved p (snd (p_match p t))"
  by (auto simp: p_match_def p_check_def intro: moved_advance)

lemma moved1_advance:
  "p_check p t \<Longrightarrow> t \<noteq> TokenEOF \<Longrightarrow> t \<noteq> TokenLimit \<Longrightarrow> moved1 p (p_advance p)"
  using p_check_advance [of p t] moved_advance [of p] by (simp add: moved1_def p_check_def)

lemma moved1_match:
  "fst (p_match p t) \<Longrightarrow> t \<noteq> TokenEOF \<Longrightarrow> t \<noteq> TokenLimit \<Longrightarrow> moved1 p (snd (p_match p t))"
  using p_match_progress [of p t] moved_match [of t p] by (simp add: moved1_def)

lemmas moved_chain =
  moved_trans moved1_trans1 moved1_trans2 moved1_moved
  moved_match [where t = TokenDot, simplified] moved_match [where t = TokenComma, simplified]
  moved_match [where t = TokenAnd, simplified] moved_match [where t = TokenEq, simplified]
  moved_match [where t = TokenLParen, simplified] moved_match [where t = TokenRParen, simplified]
  moved_match [where t = TokenDesc, simplified] moved_match [where t = TokenAsc, simplified]
  moved_match [where t = TokenIn, simplified] moved_match [where t = TokenLike, simplified]
  moved_match [where t = TokenRegexpMatch, simplified] moved_match [where t = TokenAny, simplified]
  moved_match [where t = TokenAll, simplified] moved_match [where t = TokenNone, simplified]
  moved_match [where t = TokenNot, simplified] moved_match [where t = TokenNull, simplified]
  moved_match [where t = TokenSelect, simplified] moved_match [where t = TokenFrom, simplified]
  moved_match [where t = TokenWhere, simplified] moved_match [where t = TokenOrderBy, simplified]
  moved_match [where t = TokenParameters, simplified]

lemma moved1_measure:
  "moved1 p p' \<Longrightarrow> length (ptokens p') - ppos p' < length (ptokens p) - ppos p"
  by (auto simp: moved1_def moved_def)

lemma moved_check_advance:
  "p_check p t \<Longrightarrow> t \<noteq> TokenLimit \<Longrightarrow> moved p (p_advance p)"
  by (auto simp: p_check_def intro: moved_advance)

lemma parseField_loop_moved: "parseField_loop parts p = Inr r \<Longrightarrow> moved p (snd r)"
proof (induction parts p rule: parseField_loop.induct)
  case (1 parts p)
  show ?case
  proof (cases "fst (p_match p TokenDot)")
    case True
    with "1.prems" have chk: "p_check (snd (p_match p TokenDot)) TokenIdent"
      and rec: "parseField_loop (parts @ [tvalue (p_current (snd (p_match p TokenDot)))])
                  (p_advance (snd (p_match p TokenDot))) = Inr r"
      by (subst (asm) parseField_loop.simps, simp split: if_splits)+
    from "1.IH" [OF True _ rec] chk have "moved (p_advance (snd (p_match p TokenDot))) (snd r)"
      by simp
    moreover have "moved (snd (p_match p TokenDot)) (p_advance (snd (p_match p TokenDot)))"
      using chk by (rule moved_check_advance) simp
    ultimately show ?thesis by (blast intro: moved_chain)
  next
    case False
    with "1.prems" have "snd r = snd (p_match p TokenDot)"
      by (subst (asm) parseField_loop.simps) auto
    then show ?thesis by (simp add: moved_chain)
  qed
qed

lemma parseField_moved1: "parseField p = Inr r \<Longrightarrow> moved1 p (snd r)"
  using moved1_advance [of p TokenIdent]
  by (auto simp: parseField_def split: if_splits sum.splits
        dest!: parseField_loop_moved intro: moved1_trans1)

text \<open>\<open>parseFieldList\<close>: the loop, then the check of the length.\<close>

function parseFieldList_loop :: "Field list \<Rightarrow> Parser \<Rightarrow> (Field list) result" where
  "parseFieldList_loop fs p =
     (case parseField p of
        Inl e \<Rightarrow> Inl e
      | Inr r \<Rightarrow>
          if \<not> fst (p_match (snd r) TokenComma)
          then Inr (fs @ [fst r], snd (p_match (snd r) TokenComma))
          else parseFieldList_loop (fs @ [fst r]) (snd (p_match (snd r) TokenComma)))"
  by pat_completeness auto
termination
  apply (relation "measure (\<lambda>(fs, p). length (ptokens p) - ppos p)")
   apply simp
  subgoal for fs p r
    using moved1_measure [OF moved1_trans1 [OF parseField_moved1 moved_match, of p r TokenComma]]
    by simp
  done

declare parseFieldList_loop.simps [simp del]

definition parseFieldList :: "Parser \<Rightarrow> (Field list) result" where
  "parseFieldList p =
     (case parseFieldList_loop [] p of
        Inl e \<Rightarrow> Inl e
      | Inr r \<Rightarrow>
          if length (fst r) = 0
          then Inl (p_error (snd r) ''SELECT must contain at least one field'')
          else Inr r)"

definition parseOperator :: "Parser \<Rightarrow> Operator result" where
  "parseOperator p =
     (let ty = ttype (p_current p) in
      if ty = TokenEq then Inr (OpEq, p_advance p)
      else if ty = TokenNeq then Inr (OpNeq, p_advance p)
      else if ty = TokenGt then Inr (OpGt, p_advance p)
      else if ty = TokenGte then Inr (OpGte, p_advance p)
      else if ty = TokenLt then Inr (OpLt, p_advance p)
      else if ty = TokenLte then Inr (OpLte, p_advance p)
      else if ty = TokenIn then Inr (OpIn, p_advance p)
      else if ty = TokenNot then
        (let p1 = p_advance p in
         if fst (p_match p1 TokenIn) then Inr (OpNotIn, snd (p_match p1 TokenIn))
         else if fst (p_match p1 TokenLike) then Inr (OpNotLike, snd (p_match p1 TokenLike))
         else if fst (p_match p1 TokenRegexpMatch)
           then Inr (OpNotRegexpMatch, snd (p_match p1 TokenRegexpMatch))
         else Inl (p_error p1 ''expected IN, LIKE, or REGEXP_MATCH after NOT''))
      else if ty = TokenLike then Inr (OpLike, p_advance p)
      else if ty = TokenContains then
        (let p1 = p_advance p in
         if fst (p_match p1 TokenAny) then Inr (OpContainsAny, snd (p_match p1 TokenAny))
         else if fst (p_match p1 TokenAll) then Inr (OpContainsAll, snd (p_match p1 TokenAll))
         else if fst (p_match p1 TokenNone) then Inr (OpContainsNone, snd (p_match p1 TokenNone))
         else Inl (p_error p1 ''expected ANY, ALL, or NONE after CONTAINS''))
      else if ty = TokenIs then
        (let p1 = p_advance p in
         if fst (p_match p1 TokenNot) then
           (let p2 = snd (p_match p1 TokenNot) in
            if \<not> fst (p_match p2 TokenNull)
            then Inl (p_error p2 ''expected NULL after IS NOT'')
            else Inr (OpIsNotNull, snd (p_match p2 TokenNull)))
         else if \<not> fst (p_match p1 TokenNull)
           then Inl (p_error p1 ''expected NULL or NOT NULL after IS'')
         else Inr (OpIsNull, snd (p_match p1 TokenNull)))
      else if ty = TokenDuring then Inr (OpDuring, p_advance p)
      else if ty = TokenBetween then Inr (OpBetween, p_advance p)
      else if ty = TokenRegexpMatch then Inr (OpRegexpMatch, p_advance p)
      else Inl (p_error p (''expected operator, got '' @ TokenType_String ty)))"

definition parseSimpleValue :: "Parser \<Rightarrow> string result" where
  "parseSimpleValue p =
     (let tok = p_current p in
      if ttype tok = TokenString then Inr (tvalue tok, p_advance p)
      else if ttype tok = TokenNumber then Inr (tvalue tok, p_advance p)
      else if ttype tok = TokenIdent then Inr (tvalue tok, p_advance p)
      else Inl (p_error p (''expected value, got '' @ TokenType_String (ttype tok))))"

lemma moved_match2:
  "t \<noteq> TokenLimit \<Longrightarrow> t' \<noteq> TokenLimit \<Longrightarrow> moved p (snd (p_match (snd (p_match p t)) t'))"
  by (blast intro: moved_trans moved_match)

lemma parseOperator_moved: "parseOperator p = Inr r \<Longrightarrow> moved p (snd r)"
proof -
  assume a: "parseOperator p = Inr r"
  have "ttype (p_current p) \<noteq> TokenLimit \<and> moved (p_advance p) (snd r)"
    using a by (auto simp add: parseOperator_def Let_def moved_match moved_match2 split: if_splits)
  then show ?thesis using moved_trans [OF moved_advance] by blast
qed

lemma parseSimpleValue_moved1: "parseSimpleValue p = Inr r \<Longrightarrow> moved1 p (snd r)"
  using moved1_advance [of p TokenString] moved1_advance [of p TokenNumber]
    moved1_advance [of p TokenIdent]
  by (auto simp: parseSimpleValue_def Let_def p_check_def split: if_splits)

text \<open>\<open>parseList\<close>: the loop over the items, between the parentheses.\<close>

function parseList_loop :: "string list \<Rightarrow> Parser \<Rightarrow> (string list) result" where
  "parseList_loop items p =
     (case parseSimpleValue p of
        Inl e \<Rightarrow> Inl e
      | Inr r \<Rightarrow>
          if \<not> fst (p_match (snd r) TokenComma)
          then Inr (items @ [fst r], snd (p_match (snd r) TokenComma))
          else parseList_loop (items @ [fst r]) (snd (p_match (snd r) TokenComma)))"
  by pat_completeness auto
termination
  apply (relation "measure (\<lambda>(items, p). length (ptokens p) - ppos p)")
   apply simp
  subgoal for items p r
    using moved1_measure [OF moved1_trans1 [OF parseSimpleValue_moved1 moved_match, of p r TokenComma]]
    by simp
  done

declare parseList_loop.simps [simp del]

definition parseList :: "Parser \<Rightarrow> Value result" where
  "parseList p =
     (if \<not> fst (p_match p TokenLParen)
      then Inl (p_error (snd (p_match p TokenLParen)) (''expected '' @ [CHR 0x27] @ ''('' @ [CHR 0x27] @ '' before list''))
      else (case parseList_loop [] (snd (p_match p TokenLParen)) of
              Inl e \<Rightarrow> Inl e
            | Inr r \<Rightarrow>
                if \<not> fst (p_match (snd r) TokenRParen)
                then Inl (p_error (snd (p_match (snd r) TokenRParen))
                            (''expected '' @ [CHR 0x27] @ '')'' @ [CHR 0x27] @ '' after list''))
                else Inr (Value_zero\<lparr>vType := ValueList, vList := fst r\<rparr>,
                          snd (p_match (snd r) TokenRParen))))"

definition parseValue :: "Parser \<Rightarrow> Operator \<Rightarrow> Value result" where
  "parseValue p op =
     (let tok = p_current p in
      if op = OpDuring then
        (if \<not> p_check p TokenDateRange
         then Inl (p_error p ''expected date range keyword after DURING'')
         else (case DateRangeKeywords (tvalue tok) of
                 None \<Rightarrow> Inl (p_error p (''unknown date range: '' @ tvalue tok))
               | Some dr \<Rightarrow>
                   Inr (Value_zero\<lparr>vType := ValueDateRange, vDateRange := dr\<rparr>, p_advance p)))
      else if op = OpBetween then
        (case parseSimpleValue p of
           Inl e \<Rightarrow> Inl e
         | Inr r1 \<Rightarrow>
             if \<not> fst (p_match (snd r1) TokenAnd)
             then Inl (p_error (snd (p_match (snd r1) TokenAnd)) ''expected AND in BETWEEN clause'')
             else (case parseSimpleValue (snd (p_match (snd r1) TokenAnd)) of
                     Inl e \<Rightarrow> Inl e
                   | Inr r2 \<Rightarrow>
                       Inr (Value_zero\<lparr>vType := ValueList, vList := [fst r1, fst r2]\<rparr>, snd r2)))
      else if op = OpIn \<or> op = OpNotIn \<or> op = OpContainsAny \<or> op = OpContainsAll \<or>
              op = OpContainsNone then parseList p
      else if ttype tok = TokenString then
        Inr (Value_zero\<lparr>vType := ValueString, vStr := tvalue tok\<rparr>, p_advance p)
      else if ttype tok = TokenNumber then
        (case ParseFloat (tvalue tok) of
           None \<Rightarrow> Inl (p_error p (''invalid number: '' @ tvalue tok))
         | Some num \<Rightarrow> Inr (Value_zero\<lparr>vType := ValueNumber, vNumber := num\<rparr>, p_advance p))
      else if ttype tok = TokenIdent then
        Inr (Value_zero\<lparr>vType := ValueString, vStr := tvalue tok\<rparr>, p_advance p)
      else Inl (p_error p (''expected value, got '' @ TokenType_String (ttype tok))))"

definition parseCondition :: "Parser \<Rightarrow> Condition result" where
  "parseCondition p =
     (case parseField p of
        Inl e \<Rightarrow> Inl e
      | Inr r1 \<Rightarrow>
         (case parseOperator (snd r1) of
            Inl e \<Rightarrow> Inl e
          | Inr r2 \<Rightarrow>
             if fst r2 = OpIsNull \<or> fst r2 = OpIsNotNull then
               Inr (\<lparr>cField = Name (fst r1), cOperator = fst r2,
                     cValue = Value_zero\<lparr>vType := ValueNull\<rparr>\<rparr>, snd r2)
             else
               (case parseValue (snd r2) (fst r2) of
                  Inl e \<Rightarrow> Inl e
                | Inr r3 \<Rightarrow>
                    Inr (\<lparr>cField = Name (fst r1), cOperator = fst r2, cValue = fst r3\<rparr>,
                         snd r3))))"

lemma parseList_loop_moved1: "parseList_loop items p = Inr r \<Longrightarrow> moved1 p (snd r)"
proof (induction items p arbitrary: r rule: parseList_loop.induct)
  case (1 items p)
  from "1.prems" obtain r1 where r1: "parseSimpleValue p = Inr r1"
    by (subst (asm) parseList_loop.simps) (auto split: sum.splits)
  have m1: "moved1 p (snd (p_match (snd r1) TokenComma))"
    using moved1_trans1 [OF parseSimpleValue_moved1 [OF r1] moved_match] by simp
  show ?case
  proof (cases "fst (p_match (snd r1) TokenComma)")
    case True
    with "1.prems" r1
    have "parseList_loop (items @ [fst r1]) (snd (p_match (snd r1) TokenComma)) = Inr r"
      by (subst (asm) parseList_loop.simps) simp
    from "1.IH" [OF r1 _ this] True
    have "moved1 (snd (p_match (snd r1) TokenComma)) (snd r)" by simp
    then show ?thesis using m1 moved1_trans1 moved1_moved by blast
  next
    case False
    with "1.prems" r1 have "snd r = snd (p_match (snd r1) TokenComma)"
      by (subst (asm) parseList_loop.simps) auto
    then show ?thesis using m1 by simp
  qed
qed

lemma parseList_moved1: "parseList p = Inr r \<Longrightarrow> moved1 p (snd r)"
  by (auto simp: parseList_def split: if_splits sum.splits dest!: parseList_loop_moved1)
     (blast intro: moved_chain)

lemma parseValue_moved1: "parseValue p op = Inr r \<Longrightarrow> moved1 p (snd r)"
proof (cases "op = OpDuring")
  case True
  assume "parseValue p op = Inr r"
  then show ?thesis using True moved1_advance [of p TokenDateRange]
    by (auto simp: parseValue_def Let_def split: if_splits option.splits)
next
  case nd: False
  assume a: "parseValue p op = Inr r"
  show ?thesis
  proof (cases "op = OpBetween")
    case True
    with a nd obtain r1 r2 where
      r1: "parseSimpleValue p = Inr r1" and
      r2: "parseSimpleValue (snd (p_match (snd r1) TokenAnd)) = Inr r2" and
      r: "snd r = snd r2"
      by (auto simp: parseValue_def Let_def split: if_splits sum.splits)
    from parseSimpleValue_moved1 [OF r1] parseSimpleValue_moved1 [OF r2] r
    show ?thesis by (auto intro: moved_chain)
  next
    case nb: False
    show ?thesis
    proof (cases "op = OpIn \<or> op = OpNotIn \<or> op = OpContainsAny \<or> op = OpContainsAll \<or>
              op = OpContainsNone")
      case True
      with a nd nb have "parseList p = Inr r" by (simp add: parseValue_def Let_def)
      then show ?thesis by (rule parseList_moved1)
    next
      case False
      with a nd nb show ?thesis
        using moved1_advance [of p TokenString] moved1_advance [of p TokenNumber]
          moved1_advance [of p TokenIdent]
        by (auto simp: parseValue_def Let_def p_check_def split: if_splits option.splits)
    qed
  qed
qed

lemma parseCondition_moved1: "parseCondition p = Inr r \<Longrightarrow> moved1 p (snd r)"
  by (auto simp: parseCondition_def split: sum.splits if_splits
        dest!: parseField_moved1 parseOperator_moved parseValue_moved1)
     (blast intro: moved_chain)+

text \<open>\<open>parseConditions\<close>.\<close>

function parseConditions_loop :: "Condition list \<Rightarrow> Parser \<Rightarrow> (Condition list) result" where
  "parseConditions_loop conditions p =
     (case parseCondition p of
        Inl e \<Rightarrow> Inl e
      | Inr r \<Rightarrow>
          if \<not> fst (p_match (snd r) TokenAnd)
          then Inr (conditions @ [fst r], snd (p_match (snd r) TokenAnd))
          else parseConditions_loop (conditions @ [fst r]) (snd (p_match (snd r) TokenAnd)))"
  by pat_completeness auto
termination
  apply (relation "measure (\<lambda>(conditions, p). length (ptokens p) - ppos p)")
   apply simp
  subgoal for conditions p r
    using moved1_measure [OF moved1_trans1 [OF parseCondition_moved1 moved_match, of p r TokenAnd]]
    by simp
  done

declare parseConditions_loop.simps [simp del]

definition parseConditions :: "Parser \<Rightarrow> (Condition list) result" where
  "parseConditions p = parseConditions_loop [] p"

text \<open>\<open>parseOrderings\<close>. \<open>parseOrderings_dir\<close> is the part of the loop body that reads the
  optional direction.\<close>

definition parseOrderings_dir :: "Parser \<Rightarrow> Direction \<times> Parser" where
  "parseOrderings_dir p =
     (if fst (p_match p TokenDesc) then (Desc, snd (p_match p TokenDesc))
      else if fst (p_match (snd (p_match p TokenDesc)) TokenAsc)
        then (Asc, snd (p_match (snd (p_match p TokenDesc)) TokenAsc))
      else (Asc, snd (p_match (snd (p_match p TokenDesc)) TokenAsc)))"

lemma parseOrderings_dir_moved [simp]: "moved p (snd (parseOrderings_dir p))"
  by (auto simp: parseOrderings_dir_def intro: moved_chain)

function parseOrderings_loop :: "Ordering list \<Rightarrow> Parser \<Rightarrow> (Ordering list) result" where
  "parseOrderings_loop orderings p =
     (case parseField p of
        Inl e \<Rightarrow> Inl e
      | Inr r \<Rightarrow>
          if \<not> fst (p_match (snd (parseOrderings_dir (snd r))) TokenComma)
          then Inr (orderings @
                      [\<lparr>oField = Name (fst r), oDirection = fst (parseOrderings_dir (snd r))\<rparr>],
                    snd (p_match (snd (parseOrderings_dir (snd r))) TokenComma))
          else parseOrderings_loop
                 (orderings @
                    [\<lparr>oField = Name (fst r), oDirection = fst (parseOrderings_dir (snd r))\<rparr>])
                 (snd (p_match (snd (parseOrderings_dir (snd r))) TokenComma)))"
  by pat_completeness auto
termination
  apply (relation "measure (\<lambda>(orderings, p). length (ptokens p) - ppos p)")
   apply simp
  subgoal for orderings p r
    using moved1_measure [OF moved1_trans1 [OF moved1_trans1 [OF parseField_moved1
      parseOrderings_dir_moved] moved_match, of p r TokenComma]]
    by simp
  done

declare parseOrderings_loop.simps [simp del]

definition parseOrderings :: "Parser \<Rightarrow> (Ordering list) result" where
  "parseOrderings p = parseOrderings_loop [] p"

text \<open>\<open>parseParameters\<close>.\<close>

function parseParameters_loop ::
  "(string \<times> string) list \<Rightarrow> Parser \<Rightarrow> ((string \<times> string) list) result" where
  "parseParameters_loop params p =
     (if \<not> p_check p TokenIdent then Inl (p_error p ''expected parameter name'')
      else if \<not> fst (p_match (p_advance p) TokenEq) then
        Inl (p_error (snd (p_match (p_advance p) TokenEq))
               (''expected '' @ [CHR 0x27] @ ''='' @ [CHR 0x27] @ '' after parameter name''))
      else
        (case parseSimpleValue (snd (p_match (p_advance p) TokenEq)) of
           Inl e \<Rightarrow> Inl e
         | Inr r \<Rightarrow>
             if \<not> fst (p_match (snd r) TokenComma)
             then Inr (map_store params (tvalue (p_current p)) (fst r),
                       snd (p_match (snd r) TokenComma))
             else parseParameters_loop (map_store params (tvalue (p_current p)) (fst r))
                    (snd (p_match (snd r) TokenComma))))"
  by pat_completeness auto
termination
  apply (relation "measure (\<lambda>(params, p). length (ptokens p) - ppos p)")
   apply simp
  subgoal for params p r
    using moved1_measure [OF moved1_trans2 [OF moved_trans [OF moved_check_advance moved_match]
      moved1_trans1 [OF parseSimpleValue_moved1 moved_match], of p TokenIdent TokenEq r TokenComma]]
    by simp
  done

declare parseParameters_loop.simps [simp del]

definition parseParameters :: "Parser \<Rightarrow> ((string \<times> string) list) result" where
  "parseParameters p = parseParameters_loop [] p"

text \<open>\<open>parseQuery\<close>. Each optional clause, an \<open>if p.match(...)\<close> block of the source, is a
  definition of its own; a clause that is absent leaves the field at its zero value.\<close>

definition parseWhereClause :: "Parser \<Rightarrow> (Condition list) result" where
  "parseWhereClause p =
     (if fst (p_match p TokenWhere) then parseConditions (snd (p_match p TokenWhere))
      else Inr ([], snd (p_match p TokenWhere)))"

definition parseOrderByClause :: "Parser \<Rightarrow> (Ordering list) result" where
  "parseOrderByClause p =
     (if fst (p_match p TokenOrderBy) then parseOrderings (snd (p_match p TokenOrderBy))
      else Inr ([], snd (p_match p TokenOrderBy)))"

definition parseLimitClause :: "Parser \<Rightarrow> int result" where
  "parseLimitClause p =
     (if fst (p_match p TokenLimit) then
        (let p1 = snd (p_match p TokenLimit) in
         if \<not> p_check p1 TokenNumber then Inl (p_error p1 ''expected number after LIMIT'')
         else (case Atoi (tvalue (p_current p1)) of
                 None \<Rightarrow> Inl (p_error p1 (''invalid LIMIT value: '' @ tvalue (p_current p1)))
               | Some limit \<Rightarrow>
                   if limit \<le> 0 then Inl (p_error p1 ''LIMIT must be a positive integer'')
                   else Inr (limit, p_advance p1)))
      else Inr (0, snd (p_match p TokenLimit)))"

definition parseParametersClause :: "Parser \<Rightarrow> ((string \<times> string) list) result" where
  "parseParametersClause p =
     (if fst (p_match p TokenParameters) then parseParameters (snd (p_match p TokenParameters))
      else Inr ([], snd (p_match p TokenParameters)))"

definition parseQuery :: "Parser \<Rightarrow> ParseError + Query" where
  "parseQuery p =
     (if \<not> fst (p_match p TokenSelect)
      then Inl (p_error (snd (p_match p TokenSelect)) ''expected SELECT clause'')
      else
       (case parseFieldList (snd (p_match p TokenSelect)) of
          Inl e \<Rightarrow> Inl e
        | Inr rs \<Rightarrow>
           if \<not> fst (p_match (snd rs) TokenFrom)
           then Inl (p_error (snd (p_match (snd rs) TokenFrom)) ''expected FROM clause'')
           else
            (let p1 = snd (p_match (snd rs) TokenFrom) in
             if \<not> p_check p1 TokenIdent
             then Inl (p_error p1 ''expected resource name after FROM'')
             else
              (case parseWhereClause (p_advance p1) of
                 Inl e \<Rightarrow> Inl e
               | Inr rw \<Rightarrow>
                  (case parseOrderByClause (snd rw) of
                     Inl e \<Rightarrow> Inl e
                   | Inr ro \<Rightarrow>
                      (case parseLimitClause (snd ro) of
                         Inl e \<Rightarrow> Inl e
                       | Inr rl \<Rightarrow>
                          (case parseParametersClause (snd rl) of
                             Inl e \<Rightarrow> Inl e
                           | Inr rp \<Rightarrow>
                              if \<not> p_check (snd rp) TokenEOF
                              then Inl (p_error (snd rp)
                                     (''unexpected token: '' @ tvalue (p_current (snd rp))))
                              else Inr \<lparr>Select = fst rs, From = tvalue (p_current p1),
                                        Where = fst rw, OrderBy = fst ro, Limit = fst rl,
                                        Parameters = fst rp\<rparr>)))))))"

definition Parse :: "string \<Rightarrow> ParseError + Query" where
  "Parse inp =
     (case Tokenize (NewLexer inp) of
        (toks, Some err) \<Rightarrow> Inl err
      | (toks, None) \<Rightarrow> parseQuery \<lparr>ptokens = toks, ppos = 0\<rparr>)"

section \<open>Validator\<close>

text \<open>The two resource tables are Go maps from names to \<open>true\<close>; only membership of a key
  is ever read, so each is the list of its keys.\<close>

definition KnownResources :: "string list" where
  "KnownResources =
    [''campaign'', ''ad_group'', ''ad_group_ad'', ''ad_group_criterion'', ''asset'',
     ''campaign_asset'', ''campaign_budget'', ''campaign_criterion'', ''customer'',
     ''customer_client'', ''change_event'', ''change_status'', ''click_view'',
     ''conversion_action'', ''geo_target_constant'', ''keyword_view'', ''label'',
     ''location_view'', ''media_file'', ''mobile_app_category_constant'',
     ''mobile_device_constant'', ''performance_max_placement_view'',
     ''product_bidding_category_constant'', ''search_term_view'',
     ''shopping_performance_view'', ''topic_constant'', ''user_list'']"

definition SingleDayResources :: "string list" where
  "SingleDayResources = [''click_view'']"

text \<open>\<open>datePattern.MatchString\<close> for the pattern \<open>^\d{4}-\d{2}-\d{2}$\<close>: ten bytes, ASCII
  digits around two hyphens.\<close>

definition datePattern_MatchString :: "string \<Rightarrow> bool" where
  "datePattern_MatchString s =
     (length s = 10 \<and> list_all isDigit (take 4 s) \<and> s ! 4 = CHR ''-'' \<and>
      list_all isDigit (take 2 (drop 5 s)) \<and> s ! 7 = CHR ''-'' \<and>
      list_all isDigit (take 2 (drop 8 s)))"

definition isDateRangeKeyword :: "string \<Rightarrow> bool" where
  "isDateRangeKeyword s = (DateRangeKeywords (toUpper s) \<noteq> None)"

record Validator =
  AllowUnknownResources :: bool
  RequireMetricDateContext :: bool

definition NewValidator :: Validator where
  "NewValidator = \<lparr>AllowUnknownResources = True, RequireMetricDateContext = True\<rparr>"

text \<open>Every validation function returns \<open>None\<close> for Go's \<open>nil\<close> error.\<close>

definition validateFieldName :: "string \<Rightarrow> ValidationError option" where
  "validateFieldName name =
     (if name = [] then Some \<lparr>vMessage = ''field name cannot be empty'', vField = []\<rparr>
      else None)"

fun validateSelect_loop :: "Field list \<Rightarrow> ValidationError option" where
  "validateSelect_loop [] = None"
| "validateSelect_loop (f # fs) =
     (case validateFieldName (Name f) of
        Some err \<Rightarrow> Some err
      | None \<Rightarrow> validateSelect_loop fs)"

definition validateSelect :: "Validator \<Rightarrow> Query \<Rightarrow> ValidationError option" where
  "validateSelect v q =
     (if length (Select q) = 0
      then Some \<lparr>vMessage = ''SELECT must contain at least one field'', vField = []\<rparr>
      else validateSelect_loop (Select q))"

definition validateFrom :: "Validator \<Rightarrow> Query \<Rightarrow> ValidationError option" where
  "validateFrom v q =
     (if From q = [] then Some \<lparr>vMessage = ''FROM clause is required'', vField = []\<rparr>
      else if \<not> AllowUnknownResources v \<and> From q \<notin> set KnownResources
        then Some \<lparr>vMessage = ''unknown resource: '' @ From q, vField = ''FROM''\<rparr>
      else None)"

text \<open>\<open>validateWhere\<close>: the inner loop over the two dates of a BETWEEN, the body of the
  outer loop for one condition, and the outer loop.\<close>

fun validateWhere_dates :: "string \<Rightarrow> string list \<Rightarrow> ValidationError option" where
  "validateWhere_dates fld [] = None"
| "validateWhere_dates fld (d # ds) =
     (if \<not> datePattern_MatchString d \<and> \<not> isDateRangeKeyword d
      then Some \<lparr>vMessage = ''invalid date format (expected YYYY-MM-DD): '' @ d, vField = fld\<rparr>
      else validateWhere_dates fld ds)"

definition validateWhere_cond :: "Condition \<Rightarrow> ValidationError option" where
  "validateWhere_cond cond =
     (case validateFieldName (cField cond) of
        Some err \<Rightarrow> Some err
      | None \<Rightarrow>
          if cOperator cond = OpDuring \<and> vType (cValue cond) \<noteq> ValueDateRange
          then Some \<lparr>vMessage = ''DURING requires a date range keyword'', vField = cField cond\<rparr>
          else if cOperator cond = OpBetween then
            (if vType (cValue cond) \<noteq> ValueList \<or> length (vList (cValue cond)) \<noteq> 2
             then Some \<lparr>vMessage = ''BETWEEN requires two values'', vField = cField cond\<rparr>
             else validateWhere_dates (cField cond) (vList (cValue cond)))
          else None)"

fun validateWhere_loop :: "Condition list \<Rightarrow> ValidationError option" where
  "validateWhere_loop [] = None"
| "validateWhere_loop (cond # conds) =
     (case validateWhere_cond cond of
        Some err \<Rightarrow> Some err
      | None \<Rightarrow> validateWhere_loop conds)"

definition validateWhere :: "Validator \<Rightarrow> Query \<Rightarrow> ValidationError option" where
  "validateWhere v q = validateWhere_loop (Where q)"

definition validateLimit :: "Validator \<Rightarrow> Query \<Rightarrow> ValidationError option" where
  "validateLimit v q =
     (if Limit q < 0 then Some \<lparr>vMessage = ''LIMIT must be non-negative'', vField = []\<rparr>
      else None)"

text \<open>\<open>validateSingleDayResource\<close>: the loop over the conditions returns from the first
  condition on \<open>segments.date\<close> whose operator is DURING, = or BETWEEN; when it runs to its
  end, the error after the loop is returned.\<close>

fun validateSingleDayResource_loop :: "Condition list \<Rightarrow> ValidationError option" where
  "validateSingleDayResource_loop [] =
     Some \<lparr>vMessage = ''click_view requires segments.date in WHERE clause with single-day range'',
           vField = ''FROM''\<rparr>"
| "validateSingleDayResource_loop (cond # conds) =
     (if cField cond = ''segments.date'' then
        (if cOperator cond = OpDuring then
           (if vDateRange (cValue cond) = DateRangeToday \<or>
               vDateRange (cValue cond) = DateRangeYesterday
            then None
            else Some \<lparr>vMessage = ''click_view requires single-day date range (TODAY or YESTERDAY)'',
                       vField = ''segments.date''\<rparr>)
         else if cOperator cond = OpEq then None
         else if cOperator cond = OpBetween then
           (if length (vList (cValue cond)) = 2 \<and>
               vList (cValue cond) ! 0 = vList (cValue cond) ! 1
            then None
            else Some \<lparr>vMessage = ''click_view requires single-day date range'',
                       vField = ''segments.date''\<rparr>)
         else validateSingleDayResource_loop conds)
      else validateSingleDayResource_loop conds)"

definition validateSingleDayResource :: "Validator \<Rightarrow> Query \<Rightarrow> ValidationError option" where
  "validateSingleDayResource v q =
     (if From q \<notin> set SingleDayResources then None
      else validateSingleDayResource_loop (Where q))"

text \<open>\<open>validateMetricDateContext\<close>: each of the three search loops sets a flag at the first
  hit, which is \<open>list_ex\<close>; \<open>strings.HasPrefix(s, pre)\<close> is \<open>prefix pre s\<close>.\<close>

definition validateMetricDateContext :: "Validator \<Rightarrow> Query \<Rightarrow> ValidationError option" where
  "validateMetricDateContext v q =
     (if \<not> RequireMetricDateContext v then None
      else
       (let hasMetrics = list_ex (\<lambda>f. prefix ''metrics.'' (Name f)) (Select q) in
        if \<not> hasMetrics then None
        else
         (let hasDateContext =
                (list_ex (\<lambda>f. Name f = ''segments.date'') (Select q) \<or>
                 list_ex (\<lambda>cond. cField cond = ''segments.date'') (Where q))
          in if \<not> hasDateContext
             then Some \<lparr>vMessage = ''metrics require date context (segments.date in SELECT or WHERE)'',
                        vField = []\<rparr>
             else None)))"

definition Validate :: "Validator \<Rightarrow> Query \<Rightarrow> ValidationError option" where
  "Validate v q =
     (case validateSelect v q of Some err \<Rightarrow> Some err | None \<Rightarrow>
      (case validateFrom v q of Some err \<Rightarrow> Some err | None \<Rightarrow>
       (case validateWhere v q of Some err \<Rightarrow> Some err | None \<Rightarrow>
        (case validateLimit v q of Some err \<Rightarrow> Some err | None \<Rightarrow>
         (case validateSingleDayResource v q of Some err \<Rightarrow> Some err | None \<Rightarrow>
          (case validateMetricDateContext v q of Some err \<Rightarrow> Some err | None \<Rightarrow>
           None))))))"

text \<open>\<open>ValidateQuery\<close>: the error is a parse error or a validation error.\<close>

definition ValidateQuery :: "string \<Rightarrow> (ParseError + ValidationError) + Query" where
  "ValidateQuery inp =
     (case Parse inp of
        Inl err \<Rightarrow> Inl (Inl err)
      | Inr q \<Rightarrow>
          (case Validate NewValidator q of
             Some err \<Rightarrow> Inl (Inr err)
           | None \<Rightarrow> Inr q))"

section \<open>Printer\<close>

fun Operator_String :: "Operator \<Rightarrow> string" where
  "Operator_String OpEq = ''=''"
| "Operator_String OpNeq = ''!=''"
| "Operator_String OpGt = ''>''"
| "Operator_String OpGte = ''>=''"
| "Operator_String OpLt = ''<''"
| "Operator_String OpLte = ''<=''"
| "Operator_String OpIn = ''IN''"
| "Operator_String OpNotIn = ''NOT IN''"
| "Operator_String OpLike = ''LIKE''"
| "Operator_String OpNotLike = ''NOT LIKE''"
| "Operator_String OpContainsAny = ''CONTAINS ANY''"
| "Operator_String OpContainsAll = ''CONTAINS ALL''"
| "Operator_String OpContainsNone = ''CONTAINS NONE''"
| "Operator_String OpIsNull = ''IS NULL''"
| "Operator_String OpIsNotNull = ''IS NOT NULL''"
| "Operator_String OpDuring = ''DURING''"
| "Operator_String OpBetween = ''BETWEEN''"
| "Operator_String OpRegexpMatch = ''REGEXP_MATCH''"
| "Operator_String OpNotRegexpMatch = ''NOT REGEXP_MATCH''"

text \<open>\<open>DateRange.String\<close> searches the keyword table for the value; every value but
  \<open>DateRangeCustom\<close> is under exactly one key, so the order of the search does not matter.\<close>

definition DateRange_String :: "DateRange \<Rightarrow> string" where
  "DateRange_String d =
     (case find (\<lambda>kv. snd kv = d) DateRangeKeywords_table of
        Some kv \<Rightarrow> fst kv
      | None \<Rightarrow> ''CUSTOM'')"

text \<open>\<open>%d\<close> of an \<open>int\<close>.\<close>

fun nat_digits :: "nat \<Rightarrow> string" where
  "nat_digits n =
     (if n < 10 then [char_of (48 + n)]
      else nat_digits (n div 10) @ [char_of (48 + n mod 10)])"

declare nat_digits.simps [simp del]

definition int_String :: "int \<Rightarrow> string" where
  "int_String i = (if i < 0 then ''-'' @ nat_digits (nat (- i)) else nat_digits (nat i))"

text \<open>\<open>Value.String\<close>. The text of \<open>%v\<close> for a \<open>float64\<close> is not modelled: it is the
  parameter \<open>fmtFloat\<close>.\<close>

definition Value_String :: "(rat \<Rightarrow> string) \<Rightarrow> Value \<Rightarrow> string" where
  "Value_String fmtFloat v =
     (case vType v of
        ValueString \<Rightarrow> [CHR 0x27] @ vStr v @ [CHR 0x27]
      | ValueNumber \<Rightarrow> fmtFloat (vNumber v)
      | ValueList \<Rightarrow> ''('' @ Join (vList v) '', '' @ '')''
      | ValueDateRange \<Rightarrow> DateRange_String (vDateRange v)
      | ValueNull \<Rightarrow> ''NULL'')"

text \<open>\<open>Query.String\<close>. Each loop writes a separator before every item but the first, which
  is \<open>Join\<close> over the items. The parameters are written in the order of the list.\<close>

definition Condition_String :: "(rat \<Rightarrow> string) \<Rightarrow> Condition \<Rightarrow> string" where
  "Condition_String fmtFloat c =
     cField c @ '' '' @ Operator_String (cOperator c) @ '' '' @ Value_String fmtFloat (cValue c)"

definition Ordering_String :: "Ordering \<Rightarrow> string" where
  "Ordering_String o' = oField o' @ (if oDirection o' = Desc then '' DESC'' else [])"

definition Query_String :: "(rat \<Rightarrow> string) \<Rightarrow> Query \<Rightarrow> string" where
  "Query_String fmtFloat q =
     ''SELECT '' @ Join (map Name (Select q)) '', '' @
     '' FROM '' @ From q @
     (if length (Where q) > 0
      then '' WHERE '' @ Join (map (Condition_String fmtFloat) (Where q)) '' AND '' else []) @
     (if length (OrderBy q) > 0
      then '' ORDER BY '' @ Join (map Ordering_String (OrderBy q)) '', '' else []) @
     (if Limit q > 0 then '' LIMIT '' @ int_String (Limit q) else []) @
     (if length (Parameters q) > 0
      then '' PARAMETERS '' @ Join (map (\<lambda>kv. fst kv @ '' = '' @ snd kv) (Parameters q)) '', ''
      else [])"

section \<open>Invariants of the lexer and the parser\<close>

definition tokOK :: "Token \<Rightarrow> bool" where
  "tokOK tok =
     ((ttype tok = TokenIdent \<longrightarrow> tvalue tok \<noteq> []) \<and>
      (ttype tok = TokenDateRange \<longrightarrow> DateRangeKeywords (tvalue tok) \<noteq> None) \<and>
      (ttype tok = TokenError \<longrightarrow> \<not> prefix ''unknown date range'' (tvalue tok)))"

lemma Keywords_range:
  "Keywords u = Some t \<Longrightarrow> u \<noteq> [] \<and> t \<noteq> TokenDateRange \<and> t \<noteq> TokenError \<and> t \<noteq> TokenEOF"
  by (auto simp: Keywords_def Keywords_table_def split: if_splits)

lemma slice_nonempty: "i < j \<Longrightarrow> i < length s \<Longrightarrow> slice s i j \<noteq> []"
  by (simp add: slice_def)

lemma readString_loop_type:
  "ttype (fst (readString_loop q sl sc sb l)) = TokenString \<or>
   fst (readString_loop q sl sc sb l) =
     \<lparr>ttype = TokenError, tvalue = ''unterminated string'', tline = sl, tcolumn = sc\<rparr>"
  by (induction q sl sc sb l rule: readString_loop.induct)
     (subst (1 2) readString_loop.simps, simp)

lemma readString_ok: "tokOK (fst (readString l q))"
  using readString_loop_type [of q "line l" "column l" "[]" "l_advance l"]
  by (auto simp: readString_def tokOK_def Let_def)

lemma readNumber_ok: "tokOK (fst (readNumber l))"
  by (simp add: readNumber_def tokOK_def Let_def)

lemma readIdentOrKeyword_ok:
  assumes "pos l < length (input l)" "isLetter (input l ! pos l) \<or> input l ! pos l = CHR ''_''"
  shows "tokOK (fst (readIdentOrKeyword l))"
proof -
  have "pos l < pos (skipIdentChars l)" using skipIdentChars_progress assms by simp
  then have ne: "slice (input l) (pos l) (pos (skipIdentChars l)) \<noteq> []"
    using assms(1) by (simp add: slice_nonempty)
  show ?thesis using ne
    by (auto simp: readIdentOrKeyword_def Let_def tokOK_def split: option.splits
          dest: Keywords_range)
qed

lemma nextToken_ok: "tokOK (fst (nextToken l))"
proof -
  let ?l = "skipWhitespace l"
  show ?thesis
  proof (cases "pos ?l \<ge> length (input ?l)")
    case True
    then show ?thesis by (simp add: nextToken_def tokOK_def Let_def)
  next
    case False
    then show ?thesis
      using readString_ok [of ?l] readNumber_ok [of ?l] readIdentOrKeyword_ok [of ?l]
      by (simp add: nextToken_def Let_def) (auto simp: tokOK_def)
  qed
qed

lemma Tokenize_ok:
  "\<forall>t \<in> set (tokens l). tokOK t \<Longrightarrow> \<forall>t \<in> set (fst (Tokenize l)). tokOK t"
proof (induction l rule: Tokenize.induct)
  case (1 l)
  obtain tok l1 where nt: "nextToken l = (tok, l1)" by (cases "nextToken l")
  have ok: "tokOK tok" using nextToken_ok [of l] nt by simp
  show ?case
  proof (cases "ttype tok = TokenEOF \<or> ttype tok = TokenError")
    case True
    then show ?thesis using nt ok "1.prems" by (auto simp: Tokenize.simps [of l])
  next
    case False
    have "\<forall>t\<in>set (fst (Tokenize (l1\<lparr>tokens := tokens l @ [tok]\<rparr>))). tokOK t"
      using "1.IH" [OF nt [symmetric]] False ok "1.prems" by auto
    then show ?thesis using nt False by (simp add: Tokenize.simps [of l])
  qed
qed

lemma Tokenize_error:
  "Tokenize l = (toks, Some e) \<Longrightarrow> \<not> prefix ''unknown date range'' (Message e)"
proof (induction l rule: Tokenize.induct)
  case (1 l)
  obtain tok l1 where nt: "nextToken l = (tok, l1)" by (cases "nextToken l")
  have ok: "tokOK tok" using nextToken_ok [of l] nt by simp
  show ?case
  proof (cases "ttype tok = TokenEOF \<or> ttype tok = TokenError")
    case True
    then show ?thesis using nt ok "1.prems" by (auto simp: Tokenize.simps [of l] tokOK_def)
  next
    case False
    then show ?thesis
      using "1.IH" [OF nt [symmetric]] "1.prems" nt by (simp add: Tokenize.simps [of l])
  qed
qed

lemma Tokenize_EOF_last:
  "Tokenize l = (toks, None) \<Longrightarrow> \<forall>t \<in> set (tokens l). ttype t \<noteq> TokenEOF \<Longrightarrow>
   \<exists>ts e. toks = ts @ [e] \<and> ttype e = TokenEOF \<and> (\<forall>t \<in> set ts. ttype t \<noteq> TokenEOF)"
proof (induction l rule: Tokenize.induct)
  case (1 l)
  obtain tok l1 where nt: "nextToken l = (tok, l1)" by (cases "nextToken l")
  show ?case
  proof (cases "ttype tok = TokenEOF \<or> ttype tok = TokenError")
    case True
    then show ?thesis using nt "1.prems" by (auto simp: Tokenize.simps [of l])
  next
    case False
    then show ?thesis
      using "1.IH" [OF nt [symmetric]] "1.prems" nt by (simp add: Tokenize.simps [of l])
  qed
qed

definition okToks :: "Token list \<Rightarrow> bool" where
  "okToks toks = (\<forall>t \<in> set toks. tokOK t)"

definition notUDR :: "ParseError \<Rightarrow> bool" where
  "notUDR e = (\<not> prefix ''unknown date range'' (Message e))"

lemma notUDR_error [simp]: "notUDR (p_error p msg) = (\<not> prefix ''unknown date range'' msg)"
  by (simp add: notUDR_def p_error_def)

lemma cur_ok: "okToks (ptokens p) \<Longrightarrow> tokOK (p_current p)"
  by (auto simp: okToks_def p_current_def tokOK_def)

lemma cur_ident: "okToks (ptokens p) \<Longrightarrow> p_check p TokenIdent \<Longrightarrow> tvalue (p_current p) \<noteq> []"
  using cur_ok [of p] by (simp add: tokOK_def p_check_def)

lemma moved_ok: "moved p q \<Longrightarrow> okToks (ptokens p) \<Longrightarrow> okToks (ptokens q)"
  by (simp add: moved_def)

lemma moved1_ok: "moved1 p q \<Longrightarrow> okToks (ptokens p) \<Longrightarrow> okToks (ptokens q)"
  by (simp add: moved_def moved1_def)

lemma Join_nonempty: "x \<noteq> [] \<Longrightarrow> Join (x # xs) sep \<noteq> []"
  by (cases xs) simp_all

lemma parseField_loop_inv:
  "(\<forall>e. parseField_loop parts p = Inl e \<longrightarrow> notUDR e) \<and>
   (\<forall>r. parseField_loop parts p = Inr r \<longrightarrow> (\<exists>ys. fst r = parts @ ys))"
proof (induction parts p rule: parseField_loop.induct)
  case (1 parts p)
  show ?case
  proof (cases "fst (p_match p TokenDot)")
    case False
    then show ?thesis by (auto simp: parseField_loop.simps [of parts p])
  next
    case True
    show ?thesis
    proof (cases "p_check (snd (p_match p TokenDot)) TokenIdent")
      case False
      with True show ?thesis by (simp add: parseField_loop.simps [of parts p])
    next
      case chk: True
      from "1.IH" [OF True] chk True show ?thesis
        by (auto simp: parseField_loop.simps [of parts p])
    qed
  qed
qed

lemma parseField_inv:
  assumes "okToks (ptokens p)"
  shows "(\<forall>e. parseField p = Inl e \<longrightarrow> notUDR e) \<and>
         (\<forall>r. parseField p = Inr r \<longrightarrow> Name (fst r) \<noteq> [])"
  using parseField_loop_inv [of "[tvalue (p_current p)]" "p_advance p"] cur_ident [OF assms]
  by (auto simp: parseField_def Join_nonempty split: sum.splits)

lemma parseFieldList_loop_inv:
  assumes "okToks (ptokens p)" "\<forall>f \<in> set fs. Name f \<noteq> []"
  shows "(\<forall>e. parseFieldList_loop fs p = Inl e \<longrightarrow> notUDR e) \<and>
         (\<forall>r. parseFieldList_loop fs p = Inr r \<longrightarrow>
            moved1 p (snd r) \<and> fst r \<noteq> [] \<and> (\<forall>f \<in> set (fst r). Name f \<noteq> []))"
  using assms
proof (induction fs p rule: parseFieldList_loop.induct)
  case (1 fs p)
  note inv = parseField_inv [OF "1.prems"(1)]
  show ?case
  proof (cases "parseField p")
    case (Inl e)
    then show ?thesis using inv by (simp add: parseFieldList_loop.simps [of fs p])
  next
    case (Inr r1)
    have m: "moved1 p (snd (p_match (snd r1) TokenComma))"
      using moved1_trans1 [OF parseField_moved1 [OF Inr] moved_match [of TokenComma "snd r1"]]
      by simp
    have nm: "Name (fst r1) \<noteq> []" using inv Inr by simp
    show ?thesis
    proof (cases "fst (p_match (snd r1) TokenComma)")
      case False
      then have "parseFieldList_loop fs p =
          Inr (fs @ [fst r1], snd (p_match (snd r1) TokenComma))"
        using Inr by (simp add: parseFieldList_loop.simps [of fs p])
      then show ?thesis using m nm "1.prems"(2) by simp
    next
      case True
      have nn: "\<not> \<not> fst (p_match (snd r1) TokenComma)" using True by simp
      have ok': "okToks (ptokens (snd (p_match (snd r1) TokenComma)))"
        using moved1_ok [OF m "1.prems"(1)] .
      have nms: "\<forall>f \<in> set (fs @ [fst r1]). Name f \<noteq> []" using nm "1.prems"(2) by simp
      note IH = "1.IH" [OF Inr nn ok' nms]
      have eq: "parseFieldList_loop fs p =
          parseFieldList_loop (fs @ [fst r1]) (snd (p_match (snd r1) TokenComma))"
        using Inr True by (simp add: parseFieldList_loop.simps [of fs p])
      show ?thesis unfolding eq using IH moved1_trans1 [OF m moved1_moved] by blast
    qed
  qed
qed

lemma parseFieldList_inv:
  assumes "okToks (ptokens p)"
  shows "(\<forall>e. parseFieldList p = Inl e \<longrightarrow> notUDR e) \<and>
         (\<forall>r. parseFieldList p = Inr r \<longrightarrow>
            moved1 p (snd r) \<and> fst r \<noteq> [] \<and> (\<forall>f \<in> set (fst r). Name f \<noteq> []))"
  using parseFieldList_loop_inv [OF assms, of "[]"]
  by (auto simp: parseFieldList_def split: sum.splits)

section \<open>Concrete inputs\<close>

definition q_metrics :: Query where
  "q_metrics = \<lparr>Select = [\<lparr>Name = ''campaign.id''\<rparr>, \<lparr>Name = ''metrics.clicks''\<rparr>],
     From = ''campaign'', Where = [], OrderBy = [], Limit = 0, Parameters = []\<rparr>"

definition q_click_metrics :: Query where
  "q_click_metrics = \<lparr>Select = [\<lparr>Name = ''metrics.clicks''\<rparr>], From = ''click_view'',
     Where = [], OrderBy = [], Limit = 0, Parameters = []\<rparr>"

definition q_between :: Query where
  "q_between = \<lparr>Select = [\<lparr>Name = ''a''\<rparr>], From = ''b'',
     Where = [\<lparr>cField = ''c'', cOperator = OpBetween,
               cValue = \<lparr>vType = ValueList, vStr = [], vNumber = 0, vList = [''1'', ''2''],
                          vDateRange = DateRangeToday\<rparr>\<rparr>],
     OrderBy = [], Limit = 0, Parameters = []\<rparr>"

definition q_quote :: Query where
  "q_quote = \<lparr>Select = [\<lparr>Name = ''a''\<rparr>], From = ''b'',
     Where = [\<lparr>cField = ''c'', cOperator = OpEq,
               cValue = \<lparr>vType = ValueString, vStr = ''it'' @ [CHR 0x27] @ ''s'', vNumber = 0,
                          vList = [], vDateRange = DateRangeToday\<rparr>\<rparr>],
     OrderBy = [], Limit = 0, Parameters = []\<rparr>"

definition q_param :: Query where
  "q_param = \<lparr>Select = [\<lparr>Name = ''a''\<rparr>], From = ''b'', Where = [], OrderBy = [],
     Limit = 0, Parameters = [(''x'', ''y z'')]\<rparr>"

lemma parse_click_metrics:
  "Parse ''SELECT metrics.clicks FROM click_view'' = Inr q_click_metrics"
  by code_simp

lemma validate_click_metrics:
  "Validate NewValidator q_click_metrics =
     Some \<lparr>vMessage = ''click_view requires segments.date in WHERE clause with single-day range'',
           vField = ''FROM''\<rparr>"
  by code_simp

lemma parse_between: "Parse ''SELECT a FROM b WHERE c BETWEEN 1 AND 2'' = Inr q_between"
  by code_simp

lemma print_between:
  "Query_String fmtFloat q_between = ''SELECT a FROM b WHERE c BETWEEN (1, 2)''"
  by (simp add: Query_String_def q_between_def Condition_String_def Value_String_def)

lemma reparse_between:
  "Parse ''SELECT a FROM b WHERE c BETWEEN (1, 2)'' =
     Inl \<lparr>Message = ''expected value, got ('', Line = 1, Column = 33\<rparr>"
  by code_simp

lemma parse_quote:
  "Parse (''SELECT a FROM b WHERE c = '' @ [CHR 0x22] @ ''it'' @ [CHR 0x27] @ ''s'' @ [CHR 0x22])
     = Inr q_quote"
  by code_simp

lemma print_quote:
  "Query_String fmtFloat q_quote =
     ''SELECT a FROM b WHERE c = '' @ [CHR 0x27] @ ''it'' @ [CHR 0x27] @ ''s'' @ [CHR 0x27]"
  by (simp add: Query_String_def q_quote_def Condition_String_def Value_String_def)

lemma reparse_quote:
  "Parse (''SELECT a FROM b WHERE c = '' @ [CHR 0x27] @ ''it'' @ [CHR 0x27] @ ''s'' @ [CHR 0x27])
     = Inl \<lparr>Message = ''unterminated string'', Line = 1, Column = 32\<rparr>"
  by code_simp

lemma parse_param:
  "Parse (''SELECT a FROM b PARAMETERS x = '' @ [CHR 0x27] @ ''y z'' @ [CHR 0x27]) = Inr q_param"
  by code_simp

lemma print_param:
  "Query_String fmtFloat q_param = ''SELECT a FROM b PARAMETERS x = y z''"
  by (simp add: Query_String_def q_param_def)

lemma reparse_param:
  "Parse ''SELECT a FROM b PARAMETERS x = y z'' =
     Inl \<lparr>Message = ''unexpected token: z'', Line = 1, Column = 34\<rparr>"
  by code_simp

section \<open>The metric date context rule\<close>

text \<open>Claim C4, as stated, fails: \<open>SELECT metrics.clicks FROM click_view\<close> parses, selects a
  metric field and has no \<open>segments.date\<close> anywhere, yet validation with the default
  validator fails with the message of the single-day rule, which \<open>Validate\<close> runs before the
  metric rule.\<close>

theorem metric_rule_counterexample:
  "Parse ''SELECT metrics.clicks FROM click_view'' = Inr q_click_metrics \<and>
   RequireMetricDateContext NewValidator \<and>
   Select q_click_metrics = [\<lparr>Name = ''metrics.clicks''\<rparr>] \<and>
   Where q_click_metrics = [] \<and>
   Validate NewValidator q_click_metrics =
     Some \<lparr>vMessage = ''click_view requires segments.date in WHERE clause with single-day range'',
           vField = ''FROM''\<rparr>"
  using parse_click_metrics validate_click_metrics
  by (simp add: NewValidator_def q_click_metrics_def)

text \<open>Claim C4, amended. When none of the five earlier rules of \<open>Validate\<close> (select, from,
  where, limit, single-day resource) fails, the result of \<open>Validate\<close> is the result of the
  metric rule. With \<open>RequireMetricDateContext\<close> set, as it is in the default validator, the
  metric rule fails, with the message "metrics require date context (segments.date in SELECT
  or WHERE)" and no field tag, exactly when some selected field begins with \<open>metrics.\<close> and
  \<open>segments.date\<close> is neither a selected field nor the field of a condition; when no
  selected field begins with \<open>metrics.\<close>, or the flag is off, the rule does not fail.\<close>

theorem metric_date_context_rule:
  "(validateSelect v q = None \<and> validateFrom v q = None \<and> validateWhere v q = None \<and>
    validateLimit v q = None \<and> validateSingleDayResource v q = None
      \<longrightarrow> Validate v q = validateMetricDateContext v q)
   \<and> validateMetricDateContext v q =
     (if RequireMetricDateContext v \<and>
         (\<exists>f \<in> set (Select q). prefix ''metrics.'' (Name f)) \<and>
         \<not> ((\<exists>f \<in> set (Select q). Name f = ''segments.date'') \<or>
            (\<exists>c \<in> set (Where q). cField c = ''segments.date''))
      then Some \<lparr>vMessage = ''metrics require date context (segments.date in SELECT or WHERE)'',
                 vField = []\<rparr>
      else None)
   \<and> RequireMetricDateContext NewValidator"
  by (auto simp: Validate_def validateMetricDateContext_def Let_def list_ex_iff NewValidator_def
        split: option.splits)

theorem metric_date_context_rule_witness:
  "validateSelect NewValidator q_metrics = None \<and> validateFrom NewValidator q_metrics = None \<and>
   validateWhere NewValidator q_metrics = None \<and> validateLimit NewValidator q_metrics = None \<and>
   validateSingleDayResource NewValidator q_metrics = None \<and>
   Validate NewValidator q_metrics =
     Some \<lparr>vMessage = ''metrics require date context (segments.date in SELECT or WHERE)'',
           vField = []\<rparr>"
proof -
  have e: "validateSelect NewValidator q_metrics = None \<and>
      validateFrom NewValidator q_metrics = None \<and>
      validateWhere NewValidator q_metrics = None \<and>
      validateLimit NewValidator q_metrics = None \<and>
      validateSingleDayResource NewValidator q_metrics = None"
    by code_simp
  have s: "Select q_metrics = [\<lparr>Name = ''campaign.id''\<rparr>, \<lparr>Name = ''metrics.clicks''\<rparr>]"
    "Where q_metrics = []" by (simp_all add: q_metrics_def)
  show ?thesis
    using e metric_date_context_rule [of NewValidator q_metrics]
    by (simp add: s NewValidator_def)
qed

section \<open>Number tokens\<close>

text \<open>Claim C6 against the code. On the input \<open>-\<close> the lexer reports no error: it emits a
  number token whose text is the minus sign alone. On \<open>1.\<close> it emits a number token that
  ends in the dot.\<close>

theorem lone_minus_is_number_token:
  "Tokenize (NewLexer ''-'') =
     ([\<lparr>ttype = TokenNumber, tvalue = ''-'', tline = 1, tcolumn = 1\<rparr>,
       \<lparr>ttype = TokenEOF, tvalue = [], tline = 1, tcolumn = 2\<rparr>], None) \<and>
   Tokenize (NewLexer ''1.'') =
     ([\<lparr>ttype = TokenNumber, tvalue = ''1.'', tline = 1, tcolumn = 1\<rparr>,
       \<lparr>ttype = TokenEOF, tvalue = [], tline = 1, tcolumn = 3\<rparr>], None)"
  by code_simp

section \<open>ORDER BY\<close>

text \<open>Claim C7 against the code. On the input \<open>ORDER BYTES\<close> the lexer emits an ORDER BY
  token followed by the identifier \<open>TES\<close>: it does not look at the byte after \<open>BY\<close>.\<close>

theorem order_bytes_is_order_by:
  "Tokenize (NewLexer ''ORDER BYTES'') =
     ([\<lparr>ttype = TokenOrderBy, tvalue = ''ORDER BY'', tline = 1, tcolumn = 1\<rparr>,
       \<lparr>ttype = TokenIdent, tvalue = ''TES'', tline = 1, tcolumn = 9\<rparr>,
       \<lparr>ttype = TokenEOF, tvalue = [], tline = 1, tcolumn = 12\<rparr>], None)"
  by code_simp

section \<open>Round trip through the printer\<close>

text \<open>Claim C1 against the code. Three parsed queries whose printed text does not parse
  again: a BETWEEN condition is printed as a parenthesised list, which the parser rejects
  after BETWEEN; a string value that contains a quote is printed between quotes without
  escaping; a PARAMETERS string value is printed without quotes. This holds whatever the
  text of a number is.\<close>

theorem round_trip_fails:
  "Parse ''SELECT a FROM b WHERE c BETWEEN 1 AND 2'' = Inr q_between \<and>
   Parse (Query_String fmtFloat q_between) =
     Inl \<lparr>Message = ''expected value, got ('', Line = 1, Column = 33\<rparr> \<and>
   Parse (''SELECT a FROM b WHERE c = '' @ [CHR 0x22] @ ''it'' @ [CHR 0x27] @ ''s'' @ [CHR 0x22])
     = Inr q_quote \<and>
   Parse (Query_String fmtFloat q_quote) =
     Inl \<lparr>Message = ''unterminated string'', Line = 1, Column = 32\<rparr> \<and>
   Parse (''SELECT a FROM b PARAMETERS x = '' @ [CHR 0x27] @ ''y z'' @ [CHR 0x27]) = Inr q_param \<and>
   Parse (Query_String fmtFloat q_param) =
     Inl \<lparr>Message = ''unexpected token: z'', Line = 1, Column = 34\<rparr>"
  using parse_between reparse_between parse_quote reparse_quote parse_param reparse_param
  by (simp only: print_between print_quote print_param simp_thms)

end
